theory Spec2Isabelle
  imports Complex_Main "HOL-Library.Log_Nat"
begin

section \<open>Python values used by \<open>sw/hat.py\<close>\<close>

text \<open>
  The exceptions the modelled code can raise. \<open>ValueError\<close> is what
  \<open>right_pad_array\<close> raises for an over-long packet (the specification calls it
  FrameTooLong), \<open>AssertionError\<close> is the failing \<open>assert len(s) <= 256\<close> of
  \<open>print_arbitrary_string\<close> (MessageTooLong in the specification).
\<close>

datatype error =
    ValueError
  | AssertionError
  | TypeError
  | IndexError
  | OverflowError
  | ZeroDivisionError
  | UnicodeEncodeError
  | IOError

subsection \<open>Floats\<close>

text \<open>
  A Python float is an IEEE 754 binary64 value. A finite one is kept as the rational it
  denotes; the sign of a zero is not recorded, since no operation used by \<open>hat.py\<close>
  (addition, multiplication, \<open>int()\<close>, \<open>==\<close>) observes it.
\<close>

datatype pyfloat = Fin rat | PInf | NInf | NaN

definition exp2 :: "int \<Rightarrow> rat" where
  "exp2 e = (if 0 \<le> e then 2 ^ nat e else 1 / 2 ^ nat (- e))"

text \<open>\<open>ilog2 q\<close> is the binary exponent of a positive rational: \<open>2^e \<le> q < 2^(e+1)\<close>.\<close>

definition ilog2 :: "rat \<Rightarrow> int" where
  "ilog2 q =
     (let (n, d) = quotient_of q; k = bitlen n - bitlen d
      in if exp2 k \<le> q then k else k - 1)"

definition round_half_even :: "rat \<Rightarrow> int" where
  "round_half_even r =
     (let f = \<lfloor>r\<rfloor>; d = r - of_int f
      in if d < 1 / 2 then f
         else if 1 / 2 < d then f + 1
         else if even f then f else f + 1)"

text \<open>
  Rounding of an exact result to binary64: to the nearest value with a 53-bit
  significand, ties to even, gradual underflow below \<open>2^-1022\<close>, overflow to an
  infinity from \<open>2^1024\<close> on.
\<close>

definition fl :: "rat \<Rightarrow> pyfloat" where
  "fl q =
     (if q = 0 then Fin 0
      else
        let e = max (ilog2 \<bar>q\<bar>) (- 1022);
            u = exp2 (e - 52);
            r = of_int (round_half_even (q / u)) * u
        in if 2 ^ 1024 \<le> \<bar>r\<bar> then (if 0 < q then PInf else NInf) else Fin r)"

fun fadd :: "pyfloat \<Rightarrow> pyfloat \<Rightarrow> pyfloat" where
  "fadd (Fin a) (Fin b) = fl (a + b)"
| "fadd NaN _ = NaN"
| "fadd _ NaN = NaN"
| "fadd PInf NInf = NaN"
| "fadd NInf PInf = NaN"
| "fadd PInf _ = PInf"
| "fadd _ PInf = PInf"
| "fadd NInf _ = NInf"
| "fadd _ NInf = NInf"

fun fsign :: "pyfloat \<Rightarrow> int" where
  "fsign (Fin a) = (if a < 0 then - 1 else if a = 0 then 0 else 1)"
| "fsign PInf = 1"
| "fsign NInf = - 1"
| "fsign NaN = 0"

fun fmul :: "pyfloat \<Rightarrow> pyfloat \<Rightarrow> pyfloat" where
  "fmul (Fin a) (Fin b) = fl (a * b)"
| "fmul NaN _ = NaN"
| "fmul _ NaN = NaN"
| "fmul a b =
     (if fsign a * fsign b = 0 then NaN
      else if 0 < fsign a * fsign b then PInf else NInf)"

text \<open>
  A Python number is an \<open>int\<close> (unbounded) or a \<open>float\<close>. Mixed arithmetic converts
  the \<open>int\<close> operand with \<open>float()\<close>, correctly rounded, which raises
  \<open>OverflowError\<close> when the integer is too large for a float.
\<close>

datatype pynum = PyInt int | PyFloat pyfloat

definition float_of_int :: "int \<Rightarrow> error + pyfloat" where
  "float_of_int n = (case fl (of_int n) of Fin r \<Rightarrow> Inr (Fin r) | _ \<Rightarrow> Inl OverflowError)"

fun py_add :: "pynum \<Rightarrow> pynum \<Rightarrow> error + pynum" where
  "py_add (PyInt a) (PyInt b) = Inr (PyInt (a + b))"
| "py_add (PyInt a) (PyFloat b) =
     (case float_of_int a of Inl e \<Rightarrow> Inl e | Inr fa \<Rightarrow> Inr (PyFloat (fadd fa b)))"
| "py_add (PyFloat a) (PyInt b) =
     (case float_of_int b of Inl e \<Rightarrow> Inl e | Inr fb \<Rightarrow> Inr (PyFloat (fadd a fb)))"
| "py_add (PyFloat a) (PyFloat b) = Inr (PyFloat (fadd a b))"

fun py_mul :: "pynum \<Rightarrow> pynum \<Rightarrow> error + pynum" where
  "py_mul (PyInt a) (PyInt b) = Inr (PyInt (a * b))"
| "py_mul (PyInt a) (PyFloat b) =
     (case float_of_int a of Inl e \<Rightarrow> Inl e | Inr fa \<Rightarrow> Inr (PyFloat (fmul fa b)))"
| "py_mul (PyFloat a) (PyInt b) =
     (case float_of_int b of Inl e \<Rightarrow> Inl e | Inr fb \<Rightarrow> Inr (PyFloat (fmul a fb)))"
| "py_mul (PyFloat a) (PyFloat b) = Inr (PyFloat (fmul a b))"

text \<open>
  True division of two \<open>int\<close>s, \<open>a / b\<close>: the correctly rounded quotient, as a float.
\<close>

definition int_truediv :: "int \<Rightarrow> int \<Rightarrow> error + pynum" where
  "int_truediv a b =
     (if b = 0 then Inl ZeroDivisionError
      else case fl (of_int a / of_int b) of
             Fin r \<Rightarrow> Inr (PyFloat (Fin r))
           | _ \<Rightarrow> Inl OverflowError)"

text \<open>Python's \<open>==\<close> on numbers compares the exact values; NaN equals nothing.\<close>

fun py_eq :: "pynum \<Rightarrow> pynum \<Rightarrow> bool" where
  "py_eq (PyInt a) (PyInt b) = (a = b)"
| "py_eq (PyInt a) (PyFloat (Fin b)) = (of_int a = b)"
| "py_eq (PyFloat (Fin a)) (PyInt b) = (a = of_int b)"
| "py_eq (PyFloat (Fin a)) (PyFloat (Fin b)) = (a = b)"
| "py_eq (PyFloat PInf) (PyFloat PInf) = True"
| "py_eq (PyFloat NInf) (PyFloat NInf) = True"
| "py_eq _ _ = False"

subsection \<open>NumPy's \<open>int8\<close>\<close>

text \<open>
  Storing a Python number into an \<open>int8\<close> array converts it with \<open>int()\<close> (a float is
  truncated towards zero), reads the result as a C \<open>long\<close> and keeps its low byte in
  two's complement. An integer that does not fit a C \<open>long\<close> raises
  \<open>OverflowError\<close>; the width is that of the 32-bit Raspberry Pi OS. The theorems
  below that depend on a stored value assume a byte, where the width plays no role.
\<close>

definition int8_cast :: "int \<Rightarrow> int" where
  "int8_cast v = (v + 128) mod 256 - 128"

definition fits_long :: "int \<Rightarrow> bool" where
  "fits_long v = (- (2 ^ 31) \<le> v \<and> v < 2 ^ 31)"

definition long_to_int8 :: "int \<Rightarrow> error + int" where
  "long_to_int8 v = (if fits_long v then Inr (int8_cast v) else Inl OverflowError)"

definition trunc :: "rat \<Rightarrow> int" where
  "trunc q = (if 0 \<le> q then \<lfloor>q\<rfloor> else \<lceil>q\<rceil>)"

fun np_int8 :: "pynum \<Rightarrow> error + int" where
  "np_int8 (PyInt v) = long_to_int8 v"
| "np_int8 (PyFloat (Fin q)) = long_to_int8 (trunc q)"
| "np_int8 (PyFloat NaN) = Inl ValueError"
| "np_int8 (PyFloat _) = Inl OverflowError"

text \<open>\<open>np.array(xs, dtype=np.int8)\<close>: element by element, the first failure raises.\<close>

fun np_array :: "('a \<Rightarrow> error + int) \<Rightarrow> 'a list \<Rightarrow> error + int list" where
  "np_array dtype [] = Inr []"
| "np_array dtype (x # xs) =
     (case dtype x of
        Inl e \<Rightarrow> Inl e
      | Inr v \<Rightarrow> (case np_array dtype xs of Inl e \<Rightarrow> Inl e | Inr vs \<Rightarrow> Inr (v # vs)))"

section \<open>Command codes\<close>

definition SERVO_ENABLE :: int where "SERVO_ENABLE = 0x01"
definition SERVO_DISABLE :: int where "SERVO_DISABLE = 0x02"
definition SET_PLATE_ANGLES :: int where "SET_PLATE_ANGLES = 0x04"
definition SET_SERVOS :: int where "SET_SERVOS = 0x05"
definition TEXT_ICON_SELECT :: int where "TEXT_ICON_SELECT = 0x06"
definition DISPLAY_BUFFER :: int where "DISPLAY_BUFFER = 0x07"
definition ARBITRARY_MESSAGE :: int where "ARBITRARY_MESSAGE = 0x80"

definition MENU :: int where "MENU = 1"
definition JOYSTICK :: int where "JOYSTICK = 2"

definition JoystickByteIndex_X :: nat where "JoystickByteIndex_X = 1"
definition JoystickByteIndex_Y :: nat where "JoystickByteIndex_Y = 2"

section \<open>Helper functions\<close>

definition uint8_to_int8 :: "int \<Rightarrow> int" where
  "uint8_to_int8 b = (if b < 128 then b else - 256 + b)"

text \<open>
  \<open>right_pad_array arr length dtype\<close>. A packet is a Python list of integers or an
  \<open>int8\<close> array; both are the list of their elements here. The comparisons are with
  the literal 9, as in the source. In the first branch the slice assignment
  \<open>padded_arr[:len_arr] = arr\<close> casts to \<open>dtype\<close> and fails with \<open>ValueError\<close> when
  \<open>arr\<close> cannot be broadcast into the slice.
\<close>

definition right_pad_array :: "int list \<Rightarrow> nat \<Rightarrow> (int \<Rightarrow> error + int) \<Rightarrow> error + int list" where
  "right_pad_array arr len dtype =
     (let len_arr = length arr in
      if len_arr < 9 then
        (case np_array dtype arr of
           Inl e \<Rightarrow> Inl e
         | Inr vs \<Rightarrow>
             if len_arr \<le> len then Inr (vs @ replicate (len - len_arr) 0)
             else if len_arr = 1 then Inr (replicate len (hd vs))
             else Inl ValueError)
      else if len_arr = 9 then Inr arr
      else Inl ValueError)"

section \<open>The Hat\<close>

text \<open>
  What the process does to the outside world is kept as a log, oldest event first: the
  GPIO writes, the calls of \<open>time.sleep\<close> (seconds) and the lists handed to
  \<open>spi.xfer\<close>.
\<close>

datatype event =
    GpioSetup "int list" bool
  | GpioOutput int bool
  | Sleep rat
  | SpiXfer "int list"

text \<open>
  The peripheral: the bytes it shifts back, given everything that happened before and
  the frame being sent.
\<close>

type_synonym spidev = "event list \<Rightarrow> int list \<Rightarrow> int list"

record hat =
  servo_offsets :: "int \<times> int \<times> int"
  menu_btn :: bool
  joy_btn :: bool
  joy_x :: pynum
  joy_y :: pynum
  io :: "event list"

definition get :: "int list \<Rightarrow> nat \<Rightarrow> error + int" where
  "get xs i = (if i < length xs then Inr (xs ! i) else Inl IndexError)"

definition save_buttons :: "int list \<Rightarrow> hat \<Rightarrow> (error + unit) \<times> hat" where
  "save_buttons hat_to_pi self =
     (case get hat_to_pi 0 of
        Inl e \<Rightarrow> (Inl e, self)
      | Inr b0 \<Rightarrow>
          (let self = self\<lparr>menu_btn := (b0 = MENU)\<rparr>;
               self = self\<lparr>joy_btn := (b0 = JOYSTICK)\<rparr>
           in (case get hat_to_pi JoystickByteIndex_X of
                 Inl e \<Rightarrow> (Inl e, self)
               | Inr bx \<Rightarrow>
                   (case int_truediv (uint8_to_int8 bx) 100 of
                      Inl e \<Rightarrow> (Inl e, self)
                    | Inr x \<Rightarrow>
                        (let self = self\<lparr>joy_x := x\<rparr>
                         in (case get hat_to_pi JoystickByteIndex_Y of
                               Inl e \<Rightarrow> (Inl e, self)
                             | Inr by \<Rightarrow>
                                 (case int_truediv (uint8_to_int8 by) 100 of
                                    Inl e \<Rightarrow> (Inl e, self)
                                  | Inr y \<Rightarrow> (Inr (), self\<lparr>joy_y := y\<rparr>))))))))"

definition trancieve :: "spidev \<Rightarrow> int list \<Rightarrow> hat \<Rightarrow> (error + unit) \<times> hat" where
  "trancieve spi packet self =
     (case right_pad_array packet 9 long_to_int8 of
        Inl e \<Rightarrow> (Inl e, self)
      | Inr frame \<Rightarrow>
          let self = self\<lparr>io := io self @ [Sleep (1 / 1000)]\<rparr>;
              hat_to_pi = spi (io self) frame;
              self = self\<lparr>io := io self @ [SpiXfer frame]\<rparr>
          in save_buttons hat_to_pi self)"

definition poll_buttons :: "hat \<Rightarrow> bool \<times> bool \<times> pynum \<times> pynum" where
  "poll_buttons self = (menu_btn self, joy_btn self, joy_x self, joy_y self)"

text \<open>The frames of a log, in the order they were sent.\<close>

fun frames :: "event list \<Rightarrow> int list list" where
  "frames [] = []"
| "frames (SpiXfer f # es) = f # frames es"
| "frames (_ # es) = frames es"

section \<open>Offset geometry\<close>

text \<open>A decimal literal denotes the nearest binary64 value.\<close>

definition float_lit :: "rat \<Rightarrow> pynum" where
  "float_lit q = PyFloat (fl q)"

definition X_TILT_SERVO1 :: pynum where "X_TILT_SERVO1 = float_lit (- (5 / 10))"
definition Y_TILT_SERVO2 :: pynum where "Y_TILT_SERVO2 = float_lit (866 / 1000)"
definition Y_TILT_SERVO3 :: pynum where "Y_TILT_SERVO3 = float_lit (- (866 / 1000))"

text \<open>
  An expression either raises or has a value; \<open>add\<close> and \<open>mul\<close> are \<open>+\<close> and \<open>*\<close>
  on expressions, the left operand evaluated first.
\<close>

fun add :: "error + pynum \<Rightarrow> error + pynum \<Rightarrow> error + pynum" where
  "add (Inl e) _ = Inl e"
| "add (Inr a) (Inl e) = Inl e"
| "add (Inr a) (Inr b) = py_add a b"

fun mul :: "error + pynum \<Rightarrow> error + pynum \<Rightarrow> error + pynum" where
  "mul (Inl e) _ = Inl e"
| "mul (Inr a) (Inl e) = Inl e"
| "mul (Inr a) (Inr b) = py_mul a b"

fun both :: "error + 'a \<Rightarrow> error + 'b \<Rightarrow> error + 'a \<times> 'b" where
  "both (Inl e) _ = Inl e"
| "both (Inr a) (Inl e) = Inl e"
| "both (Inr a) (Inr b) = Inr (a, b)"

definition xy_offsets :: "pynum \<Rightarrow> pynum \<Rightarrow> int \<times> int \<times> int \<Rightarrow> error + pynum \<times> pynum" where
  "xy_offsets x y offs =
     (case offs of (so_1, so_2, so_3) \<Rightarrow>
        let x_offset =
              add (add (add (Inr x) (Inr (PyInt so_1)))
                       (mul (Inr X_TILT_SERVO1) (Inr (PyInt so_2))))
                  (mul (Inr X_TILT_SERVO1) (Inr (PyInt so_3)));
            y_offset =
              add (add (Inr y) (mul (Inr Y_TILT_SERVO2) (Inr (PyInt so_2))))
                  (mul (Inr Y_TILT_SERVO3) (Inr (PyInt so_3)))
        in both x_offset y_offset)"

text \<open>
  The offset geometry in the words of the specification:
  \<open>x' = x + o1 + (-0.5)*o2 + (-0.5)*o3\<close> and \<open>y' = y + 0.866*o2 + (-0.866)*o3\<close>.
\<close>

definition offset_geometry_spec :: "pynum \<Rightarrow> pynum \<Rightarrow> int \<times> int \<times> int \<Rightarrow> error + pynum \<times> pynum" where
  "offset_geometry_spec x y offs =
     (let o1 = Inr (PyInt (fst offs));
          o2 = Inr (PyInt (fst (snd offs)));
          o3 = Inr (PyInt (snd (snd offs)))
      in both
           (add (add (add (Inr x) o1) (mul (Inr (float_lit (- (5 / 10)))) o2))
                (mul (Inr (float_lit (- (5 / 10)))) o3))
           (add (add (Inr y) (mul (Inr (float_lit (866 / 1000))) o2))
                (mul (Inr (float_lit (- (866 / 1000)))) o3)))"

section \<open>Construction\<close>

definition BOOT_EN :: int where "BOOT_EN = 5"
definition HAT_EN :: int where "HAT_EN = 20"
definition HAT_RESET :: int where "HAT_RESET = 6"
definition HAT_PWR_N :: int where "HAT_PWR_N = 3"

definition setupGPIO :: "event list" where
  "setupGPIO = [GpioSetup [BOOT_EN, HAT_EN, HAT_RESET] True, GpioSetup [HAT_PWR_N] False]"

definition runtime :: "event list" where
  "runtime =
     [GpioOutput HAT_EN False, Sleep (2 / 100), GpioOutput HAT_EN True,
      GpioOutput HAT_RESET False, GpioOutput BOOT_EN False, Sleep (25 / 100)]"

text \<open>
  \<open>Hat.__init__\<close>: the fields are set, then the bus is opened and the pins are set up;
  either can fail with \<open>IOError\<close>, which the two flags decide.
\<close>

definition Hat_init :: "bool \<Rightarrow> bool \<Rightarrow> int \<times> int \<times> int \<Rightarrow> error + hat" where
  "Hat_init spi_opens gpio_sets_up offs =
     (let self = \<lparr>servo_offsets = offs, menu_btn = False, joy_btn = False,
                  joy_x = PyInt 0, joy_y = PyInt 0, io = []\<rparr>
      in if \<not> spi_opens then Inl IOError
         else if \<not> gpio_sets_up then Inl IOError
         else Inr (self\<lparr>io := setupGPIO @ runtime\<rparr>))"

section \<open>Operations\<close>

definition enable_servos :: "spidev \<Rightarrow> hat \<Rightarrow> (error + unit) \<times> hat" where
  "enable_servos spi self = trancieve spi [SERVO_ENABLE] self"

definition disable_servos :: "spidev \<Rightarrow> hat \<Rightarrow> (error + unit) \<times> hat" where
  "disable_servos spi self = trancieve spi [SERVO_DISABLE] self"

text \<open>\<open>time.sleep(0.05)\<close> after a transfer that returned.\<close>

definition then_sleep :: "rat \<Rightarrow> (error + unit) \<times> hat \<Rightarrow> (error + unit) \<times> hat" where
  "then_sleep t r =
     (case r of
        (Inl e, self) \<Rightarrow> (Inl e, self)
      | (Inr u, self) \<Rightarrow> (Inr (), self\<lparr>io := io self @ [Sleep t]\<rparr>))"

definition set_angles :: "spidev \<Rightarrow> int \<Rightarrow> int \<Rightarrow> hat \<Rightarrow> (error + unit) \<times> hat" where
  "set_angles spi plate_x_deg plate_y_deg self =
     (case xy_offsets (PyInt plate_x_deg) (PyInt plate_y_deg) (servo_offsets self) of
        Inl e \<Rightarrow> (Inl e, self)
      | Inr (plate_x, plate_y) \<Rightarrow>
          (case np_array np_int8 [PyInt SET_PLATE_ANGLES, plate_x, plate_y] of
             Inl e \<Rightarrow> (Inl e, self)
           | Inr packet \<Rightarrow> then_sleep (5 / 100) (trancieve spi packet self)))"

definition set_servos :: "spidev \<Rightarrow> int \<Rightarrow> int \<Rightarrow> int \<Rightarrow> hat \<Rightarrow> (error + unit) \<times> hat" where
  "set_servos spi servo1 servo2 servo3 self =
     (case np_array np_int8 [PyInt SET_SERVOS, PyInt servo1, PyInt servo2, PyInt servo3] of
        Inl e \<Rightarrow> (Inl e, self)
      | Inr packet \<Rightarrow> then_sleep (5 / 100) (trancieve spi packet self))"

definition set_servo_offsets :: "int \<Rightarrow> int \<Rightarrow> int \<Rightarrow> hat \<Rightarrow> hat" where
  "set_servo_offsets servo1 servo2 servo3 self = self\<lparr>servo_offsets := (servo1, servo2, servo3)\<rparr>"

definition set_icon_text :: "spidev \<Rightarrow> int \<Rightarrow> int \<Rightarrow> hat \<Rightarrow> (error + unit) \<times> hat" where
  "set_icon_text spi icon_idx text_idx self =
     trancieve spi [TEXT_ICON_SELECT, icon_idx, text_idx] self"

definition hover :: "spidev \<Rightarrow> hat \<Rightarrow> (error + unit) \<times> hat" where
  "hover spi self = set_servos spi 150 150 150 self"

definition lower :: "spidev \<Rightarrow> hat \<Rightarrow> (error + unit) \<times> hat" where
  "lower spi self = set_servos spi 155 155 155 self"

section \<open>Display protocol\<close>

text \<open>
  A \<open>str\<close> is the list of its code points. \<open>str.upper\<close> maps \<open>a\<close>..\<open>z\<close> to \<open>A\<close>..\<open>Z\<close>
  and leaves the other ASCII characters; beyond ASCII it follows the Unicode case
  tables, which are not part of the repository and are the parameter \<open>ucd\<close> (a code
  point may have several code points as its upper case).
\<close>

type_synonym str = "nat list"

definition upper :: "(nat \<Rightarrow> nat list) \<Rightarrow> str \<Rightarrow> str" where
  "upper ucd s =
     concat (map (\<lambda>c. if c < 128 then [if 97 \<le> c \<and> c \<le> 122 then c - 32 else c] else ucd c) s)"

text \<open>\<open>bytes(s, "utf-8")\<close>; a surrogate code point cannot be encoded.\<close>

definition utf8_char :: "nat \<Rightarrow> error + nat list" where
  "utf8_char c =
     (if c < 0x80 then Inr [c]
      else if c < 0x800 then Inr [0xC0 + c div 64, 0x80 + c mod 64]
      else if 0xD800 \<le> c \<and> c \<le> 0xDFFF then Inl UnicodeEncodeError
      else if c < 0x10000 then
        Inr [0xE0 + c div 4096, 0x80 + c div 64 mod 64, 0x80 + c mod 64]
      else
        Inr [0xF0 + c div 262144, 0x80 + c div 4096 mod 64, 0x80 + c div 64 mod 64,
             0x80 + c mod 64])"

fun utf8 :: "str \<Rightarrow> error + nat list" where
  "utf8 [] = Inr []"
| "utf8 (c # cs) =
     (case utf8_char c of
        Inl e \<Rightarrow> Inl e
      | Inr bs \<Rightarrow> (case utf8 cs of Inl e \<Rightarrow> Inl e | Inr rest \<Rightarrow> Inr (bs @ rest)))"

text \<open>
  The right operand of a list concatenation: \<open>xs + ys\<close> with \<open>xs\<close> a list is defined
  for a list \<open>ys\<close> only; a \<open>bytes\<close> object raises \<open>TypeError\<close>.
\<close>

datatype pyseq = ListObj "int list" | BytesObj "nat list"

fun list_concat :: "int list \<Rightarrow> pyseq \<Rightarrow> error + int list" where
  "list_concat xs (ListObj ys) = Inr (xs @ ys)"
| "list_concat xs (BytesObj ys) = Inl TypeError"

definition slice :: "'a list \<Rightarrow> nat \<Rightarrow> nat \<Rightarrow> 'a list" where
  "slice s a b = take (b - a) (drop a s)"

text \<open>The loop \<open>for msg_idx in range(num_msgs)\<close>, over the list of its indices.\<close>

fun send_msgs :: "spidev \<Rightarrow> nat list \<Rightarrow> nat list \<Rightarrow> hat \<Rightarrow> (error + unit) \<times> hat" where
  "send_msgs spi s [] self = (Inr (), self)"
| "send_msgs spi s (msg_idx # rest) self =
     (case list_concat [ARBITRARY_MESSAGE] (BytesObj (slice s (8 * msg_idx) (8 * msg_idx + 8))) of
        Inl e \<Rightarrow> (Inl e, self)
      | Inr msg \<Rightarrow>
          (case trancieve spi msg self of
             (Inl e, self') \<Rightarrow> (Inl e, self')
           | (Inr u, self') \<Rightarrow> send_msgs spi s rest self'))"

definition print_arbitrary_string :: "(nat \<Rightarrow> nat list) \<Rightarrow> spidev \<Rightarrow> str \<Rightarrow> hat \<Rightarrow> (error + unit) \<times> hat" where
  "print_arbitrary_string ucd spi s self =
     (case utf8 (upper ucd s) of
        Inl e \<Rightarrow> (Inl e, self)
      | Inr bs \<Rightarrow>
          (let s = bs @ [0] in
           (if \<not> length s \<le> 256 then (Inl AssertionError, self)
            else
              (let num_msgs = nat \<lceil>rat_of_nat (length s) / 8\<rceil>;
                   s = s @ replicate (num_msgs * 8 - length s) 0
               in (case send_msgs spi s [0..<num_msgs] self of
                     (Inl e, self') \<Rightarrow> (Inl e, self')
                   | (Inr u, self') \<Rightarrow> trancieve spi [DISPLAY_BUFFER] self')))))"

definition str_of :: "string \<Rightarrow> str" where
  "str_of cs = map of_char cs"

section \<open>Reachable states\<close>

datatype call =
    Enable_servos
  | Disable_servos
  | Set_angles int int
  | Set_servos int int int
  | Set_servo_offsets int int int
  | Set_icon_text int int
  | Hover
  | Lower
  | Print_arbitrary_string str
  | Poll_buttons

fun exec :: "(nat \<Rightarrow> nat list) \<Rightarrow> spidev \<Rightarrow> call \<Rightarrow> hat \<Rightarrow> hat" where
  "exec ucd spi Enable_servos self = snd (enable_servos spi self)"
| "exec ucd spi Disable_servos self = snd (disable_servos spi self)"
| "exec ucd spi (Set_angles x y) self = snd (set_angles spi x y self)"
| "exec ucd spi (Set_servos a b c) self = snd (set_servos spi a b c self)"
| "exec ucd spi (Set_servo_offsets a b c) self = set_servo_offsets a b c self"
| "exec ucd spi (Set_icon_text i t) self = snd (set_icon_text spi i t self)"
| "exec ucd spi Hover self = snd (hover spi self)"
| "exec ucd spi Lower self = snd (lower spi self)"
| "exec ucd spi (Print_arbitrary_string s) self = snd (print_arbitrary_string ucd spi s self)"
| "exec ucd spi Poll_buttons self = self"

text \<open>
  The states a Hat can be in: the one a successful construction leaves, and the one
  any call leaves, whether it returned or raised.
\<close>

inductive reachable :: "(nat \<Rightarrow> nat list) \<Rightarrow> spidev \<Rightarrow> hat \<Rightarrow> bool" for ucd spi where
  constructed: "Hat_init True True offs = Inr self \<Longrightarrow> reachable ucd spi self"
| called: "reachable ucd spi self \<Longrightarrow> reachable ucd spi (exec ucd spi c self)"

text \<open>A peripheral that answers every frame with nine zero bytes, for the examples.\<close>

definition idle_spi :: spidev where
  "idle_spi history frame = replicate 9 0"

definition fresh_hat :: hat where
  "fresh_hat = \<lparr>servo_offsets = (0, 0, 0), menu_btn = False, joy_btn = False,
                 joy_x = PyInt 0, joy_y = PyInt 0, io = setupGPIO @ runtime\<rparr>"

text \<open>The bytes a frame puts on the wire: the driver keeps the low byte of each element.\<close>

definition wire :: "int list \<Rightarrow> int list" where
  "wire frame = map (\<lambda>v. v mod 256) frame"

text \<open>The two button flags are not both set.\<close>

definition excl :: "hat \<Rightarrow> bool" where
  "excl self = (\<not> (menu_btn self \<and> joy_btn self))"

section \<open>Packet codec\<close>

lemma right_pad_array_too_long:
  "9 < length arr \<Longrightarrow> right_pad_array arr len dtype = Inl ValueError"
  by (simp add: right_pad_array_def)

text \<open>
  C4. A packet of more than 9 bytes (opcode and more than 8 payload bytes) makes the
  packet codec fail with \<open>ValueError\<close>, the FrameTooLong of the specification; the payload
  is not truncated, \<open>trancieve\<close> raises the same error, and nothing is handed to the bus:
  the log of the Hat, and the Hat itself, are what they were.
\<close>

theorem C4_frame_too_long:
  "9 < length packet \<Longrightarrow>
     right_pad_array packet 9 long_to_int8 = Inl ValueError \<and>
     trancieve spi packet self = (Inl ValueError, self)"
  by (simp add: right_pad_array_too_long trancieve_def)

theorem C4_frame_too_long_witness:
  "right_pad_array [128, 1, 2, 3, 4, 5, 6, 7, 8, 9] 9 long_to_int8 = Inl ValueError \<and>
   trancieve idle_spi [128, 1, 2, 3, 4, 5, 6, 7, 8, 9] fresh_hat = (Inl ValueError, fresh_hat)"
  using C4_frame_too_long [of "[128, 1, 2, 3, 4, 5, 6, 7, 8, 9]" idle_spi fresh_hat] by simp

section \<open>Display protocol: what the code does\<close>

lemma send_msgs_raises:
  "idxs \<noteq> [] \<Longrightarrow> send_msgs spi s idxs self = (Inl TypeError, self)"
  by (cases idxs) simp_all

text \<open>
  Every call of \<open>print_arbitrary_string\<close> raises before the first transfer: the text
  cannot be encoded, or it is too long, or the first chunk cannot be built, because
  \<open>[SendCommand.ARBITRARY_MESSAGE] + s[...]\<close> adds a \<open>bytes\<close> object to a list.
\<close>

lemma print_arbitrary_string_cases:
  "print_arbitrary_string ucd spi s self =
     (case utf8 (upper ucd s) of
        Inl e \<Rightarrow> (Inl e, self)
      | Inr bs \<Rightarrow>
          if 256 < length bs + 1 then (Inl AssertionError, self) else (Inl TypeError, self))"
proof (cases "utf8 (upper ucd s)")
  case (Inl e)
  then show ?thesis by (simp add: print_arbitrary_string_def)
next
  case (Inr bs)
  have "nat \<lceil>rat_of_nat (Suc (length bs)) / 8\<rceil> \<noteq> 0"
    by (simp add: nat_eq_iff2 ceiling_le_zero not_le)
  hence "[0..<nat \<lceil>rat_of_nat (Suc (length bs)) / 8\<rceil>] \<noteq> []" by simp
  thus ?thesis using Inr
    by (simp add: print_arbitrary_string_def Let_def send_msgs_raises)
qed

lemma utf8_upper_hi: "utf8 (upper ucd (str_of ''hi'')) = Inr [72, 73]"
  by (simp add: str_of_def upper_def utf8_char_def)

lemma utf8_ascii: "\<forall>c\<in>set cs. c < 128 \<Longrightarrow> utf8 cs = Inr cs"
  by (induction cs) (simp_all add: utf8_char_def)

lemma upper_ascii:
  "\<forall>c\<in>set cs. c < 128 \<Longrightarrow>
     length (upper ucd cs) = length cs \<and> (\<forall>c\<in>set (upper ucd cs). c < 128)"
  by (induction cs) (auto simp: upper_def)

text \<open>
  C1. The specification expects \<open>show_text("hi")\<close> to send the chunk frame
  \<open>[ARBITRARY_MESSAGE, 'H', 'I', 0, 0, 0, 0, 0, 0]\<close> and then the flip-buffer frame. The
  code does not: the text is upper-cased and encoded to the bytes \<open>H\<close>, \<open>I\<close>, the
  terminator is appended, and building the first chunk raises \<open>TypeError\<close>; the Hat
  and its log are unchanged, so no frame at all has been sent.
\<close>

theorem C1_hi_raises_TypeError:
  "print_arbitrary_string ucd spi (str_of ''hi'') self = (Inl TypeError, self)"
  by (simp add: print_arbitrary_string_cases utf8_upper_hi)

text \<open>
  C3. A text whose bytes, after upper-casing, encoding and appending the terminator,
  are more than 256 makes \<open>print_arbitrary_string\<close> fail with \<open>AssertionError\<close> (the
  MessageTooLong of the specification), and no bus exchange has taken place: the Hat,
  with its log of transfers, is unchanged.
\<close>

theorem C3_message_too_long:
  "utf8 (upper ucd s) = Inr bs \<Longrightarrow> 256 < length (bs @ [0]) \<Longrightarrow>
     print_arbitrary_string ucd spi s self = (Inl AssertionError, self)"
  by (simp add: print_arbitrary_string_cases)

theorem C3_message_too_long_witness:
  "utf8 (upper (\<lambda>c. [c]) (replicate 300 97)) = Inr (replicate 300 65) \<and>
   256 < length (replicate 300 (65::nat) @ [0]) \<and>
   print_arbitrary_string (\<lambda>c. [c]) idle_spi (replicate 300 97) fresh_hat =
     (Inl AssertionError, fresh_hat)"
proof -
  have up: "upper (\<lambda>c. [c]) (replicate n 97) = replicate n 65" for n
    by (induction n) (simp_all add: upper_def)
  have u: "utf8 (upper (\<lambda>c. [c]) (replicate 300 97)) = Inr (replicate 300 65)"
    by (simp add: up utf8_ascii)
  have l: "256 < length (replicate 300 (65::nat) @ [0])" by simp
  show ?thesis
    using u l C3_message_too_long [OF u l, of idle_spi fresh_hat] by simp
qed

section \<open>A fresh Hat\<close>

text \<open>
  C10. On a Hat that has just been constructed, \<open>poll_buttons\<close> returns
  \<open>(False, False, 0, 0)\<close>, and no frame has been sent yet.
\<close>

theorem C10_fresh_poll_buttons:
  "map_sum id poll_buttons (Hat_init True True offs) = Inr (False, False, PyInt 0, PyInt 0) \<and>
   map_sum id (\<lambda>self. frames (io self)) (Hat_init True True offs) = Inr []"
  by (simp add: Hat_init_def poll_buttons_def Let_def setupGPIO_def runtime_def)

section \<open>Frames\<close>

lemma np_array_length: "np_array f xs = Inr vs \<Longrightarrow> length vs = length xs"
  by (induction xs arbitrary: vs) (auto split: sum.splits)

lemma byte_fits: "- 128 \<le> v \<Longrightarrow> v \<le> 255 \<Longrightarrow> long_to_int8 v = Inr (int8_cast v)"
  by (simp add: long_to_int8_def fits_long_def)

lemma int8_cast_mod: "int8_cast v mod 256 = v mod 256"
  unfolding int8_cast_def by (metis add_diff_cancel_right' mod_diff_left_eq)

lemma int8_cast_id: "- 128 \<le> v \<Longrightarrow> v \<le> 127 \<Longrightarrow> int8_cast v = v"
  by (simp add: int8_cast_def)

lemma np_array_bytes:
  "\<forall>v\<in>set arr. - 128 \<le> v \<and> v \<le> 255 \<Longrightarrow>
     np_array long_to_int8 arr = Inr (map int8_cast arr)"
  by (induction arr) (simp_all add: byte_fits)

lemma right_pad_array_short:
  assumes "length arr < 9" "\<forall>v\<in>set arr. - 128 \<le> v \<and> v \<le> 255"
  shows "right_pad_array arr 9 long_to_int8 =
           Inr (map int8_cast arr @ replicate (9 - length arr) 0)"
  using assms by (simp add: right_pad_array_def np_array_bytes)

lemma right_pad_array_nine: "length arr = 9 \<Longrightarrow> right_pad_array arr 9 dt = Inr arr"
  by (simp add: right_pad_array_def)

lemma right_pad_array_length: "right_pad_array arr 9 dt = Inr frame \<Longrightarrow> length frame = 9"
  by (auto simp: right_pad_array_def Let_def split: if_splits sum.splits dest: np_array_length)

lemma save_buttons_io: "io (snd (save_buttons r self)) = io self"
  by (simp add: save_buttons_def Let_def split: sum.splits)

lemma trancieve_io:
  "io (snd (trancieve spi packet self)) =
     (case right_pad_array packet 9 long_to_int8 of
        Inl e \<Rightarrow> io self
      | Inr frame \<Rightarrow> io self @ [Sleep (1 / 1000), SpiXfer frame])"
  by (simp add: trancieve_def Let_def save_buttons_io split: sum.splits)

lemma frames_append: "frames (xs @ ys) = frames xs @ frames ys"
  by (induction xs rule: frames.induct) simp_all

text \<open>
  C5. A packet of at most 9 bytes is made a frame of exactly 9: every supplied byte
  keeps its position and its value as a byte (the frame holds it as a signed byte, so
  a value up to 127 is also the same number), the bytes after the packet are zero, and
  a packet of exactly 9 is the frame. \<open>trancieve\<close> hands this frame, and nothing else,
  to the bus; and whatever the packet, a frame that \<open>trancieve\<close> hands to the bus has 9
  elements.
\<close>

theorem C5_frame_of_nine:
  assumes "length packet \<le> 9" and "\<forall>v\<in>set packet. - 128 \<le> v \<and> v \<le> 255"
  shows "\<exists>frame. right_pad_array packet 9 long_to_int8 = Inr frame \<and> length frame = 9 \<and>
     (\<forall>i<length packet. frame ! i mod 256 = packet ! i mod 256 \<and>
         (packet ! i \<le> 127 \<longrightarrow> frame ! i = packet ! i)) \<and>
     (\<forall>i. length packet \<le> i \<and> i < 9 \<longrightarrow> frame ! i = 0) \<and>
     (length packet = 9 \<longrightarrow> frame = packet) \<and>
     frames (io (snd (trancieve spi packet self))) = frames (io self) @ [frame] \<and>
     (\<forall>p f. f \<in> set (frames (io (snd (trancieve spi p self)))) - set (frames (io self))
        \<longrightarrow> length f = 9)"
proof -
  have all9: "\<forall>p f. f \<in> set (frames (io (snd (trancieve spi p self)))) - set (frames (io self))
        \<longrightarrow> length f = 9"
    by (auto simp: trancieve_io frames_append split: sum.splits dest: right_pad_array_length)
  show ?thesis
  proof (cases "length packet = 9")
    case True
    then show ?thesis using all9
      by (simp add: right_pad_array_nine trancieve_io frames_append)
  next
    case False
    with assms have lt: "length packet < 9" by simp
    let ?f = "map int8_cast packet @ replicate (9 - length packet) 0"
    have r: "right_pad_array packet 9 long_to_int8 = Inr ?f"
      using right_pad_array_short [OF lt assms(2)] .
    have a: "\<forall>i<length packet. ?f ! i = int8_cast (packet ! i)" by (simp add: nth_append)
    have b: "\<forall>i. length packet \<le> i \<and> i < 9 \<longrightarrow> ?f ! i = 0" by (auto simp: nth_append)
    have c: "length ?f = 9" using lt by simp
    have d: "\<forall>i<length packet. - 128 \<le> packet ! i" using assms(2) by simp
    have e: "\<forall>i<length packet. ?f ! i mod 256 = packet ! i mod 256 \<and>
         (packet ! i \<le> 127 \<longrightarrow> ?f ! i = packet ! i)"
      using a d by (simp add: int8_cast_mod int8_cast_id)
    have f: "frames (io (snd (trancieve spi packet self))) = frames (io self) @ [?f]"
      by (simp add: trancieve_io r frames_append)
    show ?thesis using r c e b False f all9 by blast
  qed
qed

theorem C5_frame_of_nine_witness:
  "right_pad_array [128, 72, 73] 9 long_to_int8 = Inr [- 128, 72, 73, 0, 0, 0, 0, 0, 0] \<and>
   frames (io (snd (trancieve idle_spi [128, 72, 73] fresh_hat))) =
     [[- 128, 72, 73, 0, 0, 0, 0, 0, 0]]"
proof -
  have l: "length [128, 72, 73 :: int] \<le> 9" by simp
  have b: "\<forall>v\<in>set [128, 72, 73 :: int]. - 128 \<le> v \<and> v \<le> 255" by simp
  have r: "right_pad_array [128, 72, 73] 9 long_to_int8 = Inr [- 128, 72, 73, 0, 0, 0, 0, 0, 0]"
    by code_simp
  have f: "frames (io fresh_hat) = []"
    by (simp add: fresh_hat_def setupGPIO_def runtime_def)
  from C5_frame_of_nine [OF l b, of idle_spi fresh_hat] r f show ?thesis by auto
qed

section \<open>The raw actuator path\<close>

lemma trancieve_indep:
  "trancieve spi p (self\<lparr>servo_offsets := offs\<rparr>) =
     (fst (trancieve spi p self), (snd (trancieve spi p self))\<lparr>servo_offsets := offs\<rparr>)"
  by (cases self) (simp add: trancieve_def save_buttons_def Let_def split: sum.splits)

lemma then_sleep_indep:
  "then_sleep t (e, self\<lparr>servo_offsets := offs\<rparr>) =
     (fst (then_sleep t (e, self)), (snd (then_sleep t (e, self)))\<lparr>servo_offsets := offs\<rparr>)"
  by (simp add: then_sleep_def split: sum.splits)

lemma set_servos_indep:
  "set_servos spi s1 s2 s3 (self\<lparr>servo_offsets := offs\<rparr>) =
     (fst (set_servos spi s1 s2 s3 self), (snd (set_servos spi s1 s2 s3 self))\<lparr>servo_offsets := offs\<rparr>)"
  by (simp add: set_servos_def trancieve_indep then_sleep_indep split: sum.splits)

lemma then_sleep_io: "io (snd (then_sleep t r)) = io (snd r) @ (case fst r of Inl e \<Rightarrow> [] | Inr u \<Rightarrow> [Sleep t])"
  by (cases r) (simp add: then_sleep_def split: sum.splits)

lemma then_sleep_fst: "fst (then_sleep t r) = fst r"
  by (cases r) (simp add: then_sleep_def split: sum.splits)

lemma set_servos_io:
  assumes "- 128 \<le> s1 \<and> s1 \<le> 255" "- 128 \<le> s2 \<and> s2 \<le> 255" "- 128 \<le> s3 \<and> s3 \<le> 255"
  shows "io (snd (set_servos spi s1 s2 s3 self)) =
     io self @ [Sleep (1 / 1000), SpiXfer [SET_SERVOS, int8_cast s1, int8_cast s2, int8_cast s3, 0, 0, 0, 0, 0]]
       @ (case fst (set_servos spi s1 s2 s3 self) of Inl e \<Rightarrow> [] | Inr u \<Rightarrow> [Sleep (1 / 20)])"
proof -
  let ?p = "[SET_SERVOS, int8_cast s1, int8_cast s2, int8_cast s3]"
  have p: "np_array np_int8 [PyInt SET_SERVOS, PyInt s1, PyInt s2, PyInt s3] = Inr ?p"
    using assms by (simp add: byte_fits SET_SERVOS_def int8_cast_def)
  have b: "\<forall>v\<in>set ?p. - 128 \<le> v \<and> v \<le> 255" by (auto simp: SET_SERVOS_def int8_cast_def)
  have i: "int8_cast (int8_cast v) = int8_cast v" for v by (simp add: int8_cast_def)
  have s: "int8_cast SET_SERVOS = SET_SERVOS" by (simp add: int8_cast_def SET_SERVOS_def)
  have "right_pad_array ?p 9 long_to_int8 = Inr (map int8_cast ?p @ replicate (9 - length ?p) 0)"
    using b by (intro right_pad_array_short) simp_all
  moreover have "replicate (9 - length ?p) (0::int) = [0, 0, 0, 0, 0]" by code_simp
  ultimately have q: "right_pad_array ?p 9 long_to_int8 = Inr (?p @ [0, 0, 0, 0, 0])"
    by (simp add: i s)
  show ?thesis unfolding set_servos_def p
    by (simp add: then_sleep_io then_sleep_fst trancieve_io q)
qed

lemma set_servos_frames:
  assumes "- 128 \<le> s1 \<and> s1 \<le> 255" "- 128 \<le> s2 \<and> s2 \<le> 255" "- 128 \<le> s3 \<and> s3 \<le> 255"
  shows "frames (io (snd (set_servos spi s1 s2 s3 self))) =
     frames (io self) @ [[SET_SERVOS, int8_cast s1, int8_cast s2, int8_cast s3, 0, 0, 0, 0, 0]]"
  by (simp add: set_servos_io[OF assms] frames_append split: sum.splits)

text \<open>
  C7. \<open>set_servos\<close> never reads the servo offsets: run on two Hats that differ only
  in their offsets, it returns the same result and leaves the same Hat but for that
  field, so it sends the same frames. For byte arguments it sends exactly one frame,
  whose bytes on the wire are \<open>[SET_SERVOS, s1, s2, s3, 0, 0, 0, 0, 0]\<close> (the frame holds
  them as signed bytes, so arguments up to 127 are in it as they are). The offsets do
  reach \<open>set_angles\<close>: with offsets \<open>(1, 0, 0)\<close> it sends another frame than with
  \<open>(0, 0, 0)\<close>.
\<close>

theorem C7_set_servos_ignores_offsets:
  "set_servos spi s1 s2 s3 (self\<lparr>servo_offsets := offs\<rparr>) =
     (fst (set_servos spi s1 s2 s3 self), (snd (set_servos spi s1 s2 s3 self))\<lparr>servo_offsets := offs\<rparr>) \<and>
   ((- 128 \<le> s1 \<and> s1 \<le> 255) \<and> (- 128 \<le> s2 \<and> s2 \<le> 255) \<and> (- 128 \<le> s3 \<and> s3 \<le> 255) \<longrightarrow>
      (\<exists>frame. frames (io (snd (set_servos spi s1 s2 s3 (self\<lparr>servo_offsets := offs\<rparr>)))) = frames (io self) @ [frame] \<and>
         frames (io (snd (set_servos spi s1 s2 s3 self))) = frames (io self) @ [frame] \<and>
         wire frame = [SET_SERVOS, s1 mod 256, s2 mod 256, s3 mod 256, 0, 0, 0, 0, 0] \<and>
         (s1 \<le> 127 \<and> s2 \<le> 127 \<and> s3 \<le> 127 \<longrightarrow> frame = [SET_SERVOS, s1, s2, s3, 0, 0, 0, 0, 0]))) \<and>
   frames (io (snd (set_angles idle_spi 0 0 (fresh_hat\<lparr>servo_offsets := (1, 0, 0)\<rparr>)))) \<noteq>
     frames (io (snd (set_angles idle_spi 0 0 fresh_hat)))"
proof (intro conjI impI)
  show "set_servos spi s1 s2 s3 (self\<lparr>servo_offsets := offs\<rparr>) =
     (fst (set_servos spi s1 s2 s3 self), (snd (set_servos spi s1 s2 s3 self))\<lparr>servo_offsets := offs\<rparr>)"
    by (rule set_servos_indep)
next
  assume a: "(- 128 \<le> s1 \<and> s1 \<le> 255) \<and> (- 128 \<le> s2 \<and> s2 \<le> 255) \<and> (- 128 \<le> s3 \<and> s3 \<le> 255)"
  let ?f = "[SET_SERVOS, int8_cast s1, int8_cast s2, int8_cast s3, 0, 0, 0, 0, 0]"
  have 1: "frames (io (snd (set_servos spi s1 s2 s3 self))) = frames (io self) @ [?f]"
    using a by (intro set_servos_frames) simp_all
  have 2: "frames (io (snd (set_servos spi s1 s2 s3 (self\<lparr>servo_offsets := offs\<rparr>)))) = frames (io self) @ [?f]"
    using 1 by (simp add: set_servos_indep)
  have 3: "wire ?f = [SET_SERVOS, s1 mod 256, s2 mod 256, s3 mod 256, 0, 0, 0, 0, 0]"
    by (simp add: wire_def int8_cast_mod SET_SERVOS_def)
  have 4: "s1 \<le> 127 \<and> s2 \<le> 127 \<and> s3 \<le> 127 \<longrightarrow> ?f = [SET_SERVOS, s1, s2, s3, 0, 0, 0, 0, 0]"
    using a by (simp add: int8_cast_id)
  show "\<exists>frame. frames (io (snd (set_servos spi s1 s2 s3 (self\<lparr>servo_offsets := offs\<rparr>)))) = frames (io self) @ [frame] \<and>
         frames (io (snd (set_servos spi s1 s2 s3 self))) = frames (io self) @ [frame] \<and>
         wire frame = [SET_SERVOS, s1 mod 256, s2 mod 256, s3 mod 256, 0, 0, 0, 0, 0] \<and>
         (s1 \<le> 127 \<and> s2 \<le> 127 \<and> s3 \<le> 127 \<longrightarrow> frame = [SET_SERVOS, s1, s2, s3, 0, 0, 0, 0, 0])"
    using 1 2 3 4 by blast
next
  show "frames (io (snd (set_angles idle_spi 0 0 (fresh_hat\<lparr>servo_offsets := (1, 0, 0)\<rparr>)))) \<noteq>
     frames (io (snd (set_angles idle_spi 0 0 fresh_hat)))"
    by code_simp
qed

theorem C7_set_servos_ignores_offsets_witness:
  "frames (io (snd (set_servos idle_spi 10 20 30 (fresh_hat\<lparr>servo_offsets := (2, 3, 4)\<rparr>)))) = [[SET_SERVOS, 10, 20, 30, 0, 0, 0, 0, 0]] \<and>
   frames (io (snd (set_servos idle_spi 10 20 30 fresh_hat))) = [[SET_SERVOS, 10, 20, 30, 0, 0, 0, 0, 0]]"
proof -
  have f: "frames (io fresh_hat) = []"
    by (simp add: fresh_hat_def setupGPIO_def runtime_def)
  from C7_set_servos_ignores_offsets [where spi = idle_spi and ?s1.0 = 10 and ?s2.0 = 20 and ?s3.0 = 30 and self = fresh_hat
      and offs = "(2, 3, 4)"] f show ?thesis by auto
qed

section \<open>Buttons\<close>

lemma save_buttons_excl: "excl self \<Longrightarrow> excl (snd (save_buttons r self))"
  by (auto simp: save_buttons_def excl_def Let_def MENU_def JOYSTICK_def split: sum.splits)

lemma save_buttons_flags:
  "r \<noteq> [] \<Longrightarrow> menu_btn (snd (save_buttons r self)) = (r ! 0 = MENU) \<and> joy_btn (snd (save_buttons r self)) = (r ! 0 = JOYSTICK)"
  by (cases r) (auto simp: save_buttons_def get_def Let_def split: sum.splits)

lemma trancieve_excl:
  assumes "excl self" shows "excl (snd (trancieve spi p self))"
proof (cases "right_pad_array p 9 long_to_int8")
  case (Inl e) then show ?thesis using assms by (simp add: trancieve_def)
next
  case (Inr frame)
  have "excl (self\<lparr>io := io self @ [Sleep (1 / 1000), SpiXfer frame]\<rparr>)" using assms by (simp add: excl_def)
  from save_buttons_excl[OF this] show ?thesis using Inr by (simp add: trancieve_def Let_def)
qed

lemma trancieve_flags:
  assumes "right_pad_array p 9 long_to_int8 = Inr frame" "spi (io self @ [Sleep (1 / 1000)]) frame = r" "r \<noteq> []"
  shows "menu_btn (snd (trancieve spi p self)) = (r ! 0 = MENU) \<and> joy_btn (snd (trancieve spi p self)) = (r ! 0 = JOYSTICK)"
  using assms save_buttons_flags[of r] by (simp add: trancieve_def Let_def)

lemma then_sleep_excl: "excl (snd r) \<Longrightarrow> excl (snd (then_sleep t r))"
  by (cases r) (auto simp: then_sleep_def excl_def split: sum.splits)

lemma set_servos_excl: "excl self \<Longrightarrow> excl (snd (set_servos spi a b c self))"
  by (simp add: set_servos_def then_sleep_excl trancieve_excl split: sum.splits)

lemma set_angles_excl: "excl self \<Longrightarrow> excl (snd (set_angles spi a b self))"
  by (simp add: set_angles_def then_sleep_excl trancieve_excl split: sum.splits prod.splits)

lemma print_arbitrary_string_excl: "excl self \<Longrightarrow> excl (snd (print_arbitrary_string ucd spi s self))"
  by (simp add: print_arbitrary_string_cases split: sum.splits)

lemma set_servo_offsets_excl: "excl self \<Longrightarrow> excl (set_servo_offsets a b c self)"
  by (simp add: excl_def set_servo_offsets_def)

lemma exec_excl: "excl self \<Longrightarrow> excl (exec ucd spi c self)"
  by (cases c) (simp_all add: enable_servos_def disable_servos_def set_icon_text_def hover_def lower_def
      trancieve_excl set_servos_excl set_angles_excl print_arbitrary_string_excl set_servo_offsets_excl)

lemma Hat_init_flags: "Hat_init a b offs = Inr self \<Longrightarrow> \<not> menu_btn self \<and> \<not> joy_btn self"
  by (auto simp: Hat_init_def Let_def split: if_splits)

lemma reachable_excl: "reachable ucd spi self \<Longrightarrow> excl self"
proof (induction rule: reachable.induct)
  case (constructed offs self) then show ?case using Hat_init_flags by (simp add: excl_def)
next
  case (called self c) then show ?case by (simp add: exec_excl)
qed

text \<open>
  C9. A Hat that has just been constructed has both button flags false; after an
  exchange that received a reply, the menu flag says whether byte 0 of the reply is
  \<open>MENU\<close> (1) and the joystick flag whether it is \<open>JOYSTICK\<close> (2); and in no state
  that a Hat can reach are both flags true.
\<close>

theorem C9_buttons_exclusive:
  "(Hat_init True True offs = Inr self0 \<longrightarrow> \<not> menu_btn self0 \<and> \<not> joy_btn self0) \<and>
   (right_pad_array p 9 long_to_int8 = Inr frame \<and> spi (io self @ [Sleep (1 / 1000)]) frame = r \<and> r \<noteq> [] \<longrightarrow>
      menu_btn (snd (trancieve spi p self)) = (r ! 0 = MENU) \<and>
      joy_btn (snd (trancieve spi p self)) = (r ! 0 = JOYSTICK)) \<and>
   (reachable ucd spi h \<longrightarrow> \<not> (menu_btn h \<and> joy_btn h))"
  using Hat_init_flags[of True True offs self0] trancieve_flags[of p frame spi self r] reachable_excl[of ucd spi h]
  by (simp add: excl_def)

theorem C9_buttons_exclusive_witness:
  "\<not> (menu_btn (exec (\<lambda>c. [c]) (\<lambda>h f. [1, 0, 0, 0, 0, 0, 0, 0, 0]) Enable_servos fresh_hat) \<and>
      joy_btn (exec (\<lambda>c. [c]) (\<lambda>h f. [1, 0, 0, 0, 0, 0, 0, 0, 0]) Enable_servos fresh_hat)) \<and>
   menu_btn (snd (trancieve (\<lambda>h f. [1, 0, 0, 0, 0, 0, 0, 0, 0]) [SERVO_ENABLE] fresh_hat))"
proof -
  let ?spi = "\<lambda>(h::event list) (f::int list). [1, 0, 0, 0, 0, 0, 0, 0, 0::int]"
  let ?ucd = "\<lambda>c::nat. [c]"
  have i: "Hat_init True True (0, 0, 0) = Inr fresh_hat" by (simp add: Hat_init_def fresh_hat_def Let_def)
  have r: "reachable ?ucd ?spi (exec ?ucd ?spi Enable_servos fresh_hat)"
    by (rule reachable.called, rule reachable.constructed, rule i)
  have f: "right_pad_array [SERVO_ENABLE] 9 long_to_int8 = Inr [1, 0, 0, 0, 0, 0, 0, 0, 0]" by code_simp
  from C9_buttons_exclusive [where offs = "(0, 0, 0)" and ?self0.0 = fresh_hat and p = "[SERVO_ENABLE]"
      and frame = "[1, 0, 0, 0, 0, 0, 0, 0, 0]" and spi = ?spi and self = fresh_hat
      and r = "[1, 0, 0, 0, 0, 0, 0, 0, 0]" and ucd = ?ucd
      and h = "exec ?ucd ?spi Enable_servos fresh_hat"] i r f
  show ?thesis by (simp add: MENU_def)
qed

end
